theory Spec2Isabelle
  imports Main "HOL-Library.Sublist"
begin

section \<open>VNC playback: data model\<close>

text \<open>
  A shallow embedding of \<^verbatim>\<open>src/vnc/playback.go\<close>. Durations and instants are Go's
  \<^verbatim>\<open>time.Duration\<close> and \<^verbatim>\<open>time.Time\<close>, counted in nanoseconds; the values that occur
  in a playback stay far inside the 64-bit range, so they are integers here.
\<close>

type_synonym Duration = int
type_synonym Time = int

definition second :: Duration where
  "second = 1000000000"

text \<open>\<^verbatim>\<open>t.Sub(u)\<close> is the duration \<open>t - u\<close>.\<close>

definition time_Sub :: "Time \<Rightarrow> Time \<Rightarrow> Duration" where
  "time_Sub t u = t - u"

text \<open>The kinds of control signal (type \<^verbatim>\<open>Control\<close> of package vnc).\<close>

datatype Control = Play | Pause | Step | LoadFile | WaitForIt

text \<open>
  The dynamic values that travel as \<^verbatim>\<open>interface{}\<close>: what \<^verbatim>\<open>parseEvent\<close> returns and what
  a signal carries as \<^verbatim>\<open>data\<close>. \<open>WireEvent\<close> stands for every value that implements the
  \<^verbatim>\<open>Event\<close> interface (its payload is opaque); \<open>LoadFileEventPtr\<close> is a \<^verbatim>\<open>*LoadFileEvent\<close>
  with its \<^verbatim>\<open>File\<close>; \<open>LoadFileEventVal\<close> is a \<^verbatim>\<open>LoadFileEvent\<close> struct value;
  \<open>WaitForItEventPtr\<close> is a \<^verbatim>\<open>*WaitForItEvent\<close> with its \<^verbatim>\<open>File\<close> and \<^verbatim>\<open>Timeout\<close>.
\<close>

datatype iface =
    NilValue
  | WireEvent string
  | LoadFileEventPtr string
  | LoadFileEventVal string
  | WaitForItEventPtr string int
  | OtherValue string

record signal =
  kind :: Control
  data :: iface

datatype error =
    NotStepable            \<comment> \<open>"playback not stepable"\<close>
  | NotPauseable           \<comment> \<open>"playback not pauseable"\<close>
  | NotPlayable            \<comment> \<open>"playback not playable"\<close>
  | AlreadyStopped         \<comment> \<open>"playback has already stopped"\<close>
  | UnknownEvent iface     \<comment> \<open>"unknown event: %v"\<close>
  | TooManyRecursive       \<comment> \<open>"too many recursive LoadFiles"\<close>
  | TimeoutWaitingFor string   \<comment> \<open>"timeout waiting for %v"\<close>
  | ScreenshotWriteFailed string   \<comment> \<open>"screenshot failed to write: %v"\<close>
  | ScreenshotEncodeFailed string  \<comment> \<open>"unable to encode screenshot: %v"\<close>
  | OpenError string       \<comment> \<open>the error of \<^verbatim>\<open>os.Open\<close>, with the path\<close>
  | ConnError string       \<comment> \<open>an error of the connection\<close>
  | ParseError string      \<comment> \<open>an error of \<^verbatim>\<open>parseEvent\<close> or \<^verbatim>\<open>time.ParseDuration\<close>\<close>

text \<open>
  The fields of \<^verbatim>\<open>struct playback\<close> behind the mutex. A \<^verbatim>\<open>*os.File\<close> is the name it
  was opened with, \<open>None\<close> for the nil pointer. The four channels are not data of the
  struct: what is sent on them is the \<open>chan_action\<close> of an operation and the environment
  of the interpreter below.
\<close>

record playback =
  ID :: string
  rhost :: string
  start :: Time
  depth :: int
  duration :: Duration
  e :: string
  state :: Control
  closed :: bool
  file' :: "string option"
  err :: "error option"

text \<open>What a call returns: a value, or a run-time panic.\<close>

datatype 'a go = Returns 'a | Panicked

text \<open>What an operation of the session does to a channel while it holds the lock.\<close>

datatype chan_action = NoSend | SendSignal signal | SendOut iface | CloseSignal

section \<open>The session's operations\<close>

definition Closed :: "'a playback_scheme \<Rightarrow> bool" where
  "Closed p = closed p"

text \<open>
  \<^verbatim>\<open>Info\<close>: nil for a closed session; \<^verbatim>\<open>p.file.Name()\<close> on the nil file is a nil
  dereference. \<open>durationString\<close> is \<^verbatim>\<open>time.Duration\<close>'s \<^verbatim>\<open>String\<close>, which
  \<^verbatim>\<open>%v\<close> prints.
\<close>

definition Info :: "(Duration \<Rightarrow> string) \<Rightarrow> 'a playback_scheme \<Rightarrow> string list go" where
  "Info durationString p =
     (if closed p then Returns []
      else
        let res = [ID p, ''playback kb''];
            res = (if state p = Pause then res @ [''PAUSED'']
                   else res @ [durationString (duration p) @ '' remaining''])
        in case file' p of
             None \<Rightarrow> Panicked
           | Some name \<Rightarrow> Returns (res @ [name]))"

text \<open>
  \<^verbatim>\<open>Start\<close>, the part under the lock: \<open>wr\<close> is the result of writing the
  \<^verbatim>\<open>SetEncodings\<close> message and \<open>t\<close> the reading of \<^verbatim>\<open>time.Now()\<close>. The three tasks
  it launches are the interpreter \<open>playFile\<close> below (followed by \<^verbatim>\<open>Stop\<close>), the
  dispatcher and the listener.
\<close>

definition Start :: "error option \<Rightarrow> Time \<Rightarrow> 'a playback_scheme \<Rightarrow> error option \<times> 'a playback_scheme" where
  "Start wr t p =
     (case wr of
        Some er \<Rightarrow> (Some er, p)
      | None \<Rightarrow> (None, p\<lparr>start := t, state := Play\<rparr>))"

definition Step_op :: "'a playback_scheme \<Rightarrow> error option \<times> 'a playback_scheme \<times> chan_action" where
  "Step_op p =
     (if state p \<noteq> Play \<or> closed p then (Some NotStepable, p, NoSend)
      else (None, p, SendSignal \<lparr>kind = Step, data = NilValue\<rparr>))"

definition Pause_op :: "'a playback_scheme \<Rightarrow> error option \<times> 'a playback_scheme \<times> chan_action" where
  "Pause_op p =
     (if state p \<noteq> Play \<or> closed p then (Some NotPauseable, p, NoSend)
      else (None, p\<lparr>state := Pause\<rparr>, SendSignal \<lparr>kind = Pause, data = NilValue\<rparr>))"

definition Continue :: "'a playback_scheme \<Rightarrow> error option \<times> 'a playback_scheme \<times> chan_action" where
  "Continue p =
     (if state p \<noteq> Pause \<or> closed p then (Some NotPlayable, p, NoSend)
      else (None, p\<lparr>state := Play\<rparr>, SendSignal \<lparr>kind = Play, data = NilValue\<rparr>))"

definition Stop :: "'a playback_scheme \<Rightarrow> error option \<times> 'a playback_scheme \<times> chan_action" where
  "Stop p =
     (if closed p then (Some AlreadyStopped, p, NoSend)
      else (None, p\<lparr>closed := True\<rparr>, CloseSignal))"

text \<open>
  \<^verbatim>\<open>Inject\<close>. \<open>parseEvent\<close> is the script grammar of package vnc: from the text of a
  directive, a value or an error.
\<close>

definition Inject :: "(string \<Rightarrow> error + iface) \<Rightarrow> string \<Rightarrow> 'a playback_scheme
    \<Rightarrow> error option \<times> 'a playback_scheme \<times> chan_action" where
  "Inject parseEvent cmd p =
     (if closed p then (Some AlreadyStopped, p, NoSend)
      else case parseEvent cmd of
        Inl er \<Rightarrow> (Some er, p, NoSend)
      | Inr v \<Rightarrow>
          (case v of
             WireEvent x \<Rightarrow> (None, p, SendOut v)
           | LoadFileEventPtr f \<Rightarrow> (None, p, SendSignal \<lparr>kind = LoadFile, data = v\<rparr>)
           | WaitForItEventPtr f t \<Rightarrow> (None, p, SendSignal \<lparr>kind = WaitForIt, data = v\<rparr>)
           | _ \<Rightarrow> (Some (UnknownEvent v), p, NoSend)))"

definition GetStep :: "'a playback_scheme \<Rightarrow> string \<times> error option" where
  "GetStep p = (if closed p then ('''', Some AlreadyStopped) else (e p, None))"

section \<open>The interpreter's state\<close>

text \<open>
  The interpreter runs against an environment, which the model threads through beside the
  session's fields:
  \<^item> \<open>fs\<close>: the file system, from a path to the lines the scanner yields (\<open>None\<close>: the
    file cannot be opened);
  \<^item> \<open>now\<close>: the reading of the clock;
  \<^item> \<open>sigs\<close>: what happens at each wait on the signal channel, in order, and
    \<open>signal_closed\<close>: whether the interpreter has seen the channel closed (a closed
    channel stays closed, and every later receive on it completes at once);
  \<^item> \<open>polls\<close>: what happens at each poll of the synchronizer, in order;
  \<^item> \<open>sent\<close>: the events sent on \<^verbatim>\<open>out\<close>, \<open>timers\<close>: the durations given to
    \<^verbatim>\<open>time.After\<close> by the script-line wait, \<open>opened\<close>: the paths given to \<^verbatim>\<open>os.Open\<close>,
    \<open>shots\<close>: the files created by \<^verbatim>\<open>os.Create\<close> with the image encoded into each (\<open>None\<close>
    when the encoding failed).
\<close>

datatype chan_item = ChanClosed | Msg signal

text \<open>
  At a \<^verbatim>\<open>select\<close> either the timer fires or a receive on the signal channel completes,
  \<open>Recv w x\<close>, where \<open>w\<close> is the time that passed on the clock since the wait began.
\<close>

datatype decision = TimerFired | Recv nat chan_item

text \<open>
  One poll of the synchronizer: the request cannot be written; no frame comes before the
  timer; a frame comes after \<open>w\<close> nanoseconds and is stored; it comes and the file cannot be
  created; it comes and cannot be encoded.
\<close>

datatype poll =
    FbWriteFails string
  | Expired
  | Frame nat string
  | FrameCreateFails nat string
  | FrameEncodeFails nat string

record world = playback +
  fs :: "string \<Rightarrow> string list option"
  now :: Time
  sigs :: "decision list"
  signal_closed :: bool
  polls :: "poll list"
  sent :: "iface list"
  timers :: "Duration list"
  opened :: "string list"
  shots :: "(string \<times> string option) list"

subsection \<open>The small mutators\<close>

text \<open>\<^verbatim>\<open>setFile\<close> returns the old file and the error; the depth is raised first.\<close>

definition setFile :: "string option \<Rightarrow> 'a playback_scheme
    \<Rightarrow> string option \<times> error option \<times> 'a playback_scheme" where
  "setFile f p =
     (let p = p\<lparr>depth := depth p + 1\<rparr> in
      if depth p > 100 then (None, Some TooManyRecursive, p)
      else (file' p, None, p\<lparr>file' := f\<rparr>))"

definition resetFile :: "string option \<Rightarrow> 'a playback_scheme \<Rightarrow> 'a playback_scheme" where
  "resetFile old p = p\<lparr>depth := depth p - 1, file' := old\<rparr>"

definition setStep :: "string \<Rightarrow> 'a playback_scheme \<Rightarrow> 'a playback_scheme" where
  "setStep s p = p\<lparr>e := s\<rparr>"

definition addDuration :: "Duration \<Rightarrow> 'a playback_scheme \<Rightarrow> 'a playback_scheme" where
  "addDuration d p = p\<lparr>duration := duration p + d\<rparr>"

section \<open>The wait-for-it synchronizer\<close>

text \<open>\<^verbatim>\<open>%v\<close> of a non-negative \<^verbatim>\<open>int\<close>: its decimal digits.\<close>

fun string_of_nat :: "nat \<Rightarrow> string" where
  "string_of_nat n =
     (if n < 10 then [''0123456789'' ! n]
      else string_of_nat (n div 10) @ [''0123456789'' ! (n mod 10)])"

declare string_of_nat.simps [simp del]

definition screenshot_name :: "nat \<Rightarrow> string" where
  "screenshot_name i = ''screenshot-'' @ string_of_nat i @ ''.png''"

text \<open>
  The loop of \<^verbatim>\<open>waitForIt\<close>, with the reference \<open>ref\<close>, the remaining \<open>timeout\<close> and the
  counter \<open>i\<close>. The result is the error returned, \<open>None\<close> for nil. When the environment
  has no poll left, no frame ever comes and the timer fires.
\<close>

function waitForIt_loop :: "string \<Rightarrow> Duration \<Rightarrow> nat \<Rightarrow> world \<Rightarrow> error option \<times> world" where
  "waitForIt_loop ref timeout i s =
     (if timeout > 0 then
        (case polls s of
           [] \<Rightarrow> (Some (TimeoutWaitingFor ref), s\<lparr>now := now s + timeout\<rparr>)
         | p # ps \<Rightarrow>
             (case p of
                FbWriteFails er \<Rightarrow> (Some (ConnError er), s\<lparr>polls := ps\<rparr>)
              | Expired \<Rightarrow> (Some (TimeoutWaitingFor ref), s\<lparr>polls := ps, now := now s + timeout\<rparr>)
              | FrameCreateFails w er \<Rightarrow>
                  (Some (ScreenshotWriteFailed er), s\<lparr>polls := ps, now := now s + int w\<rparr>)
              | FrameEncodeFails w er \<Rightarrow>
                  (Some (ScreenshotEncodeFailed er),
                   s\<lparr>polls := ps, now := now s + int w,
                     shots := shots s @ [(screenshot_name i, None)]\<rparr>)
              | Frame w img \<Rightarrow>
                  (let started = now s;
                       s = s\<lparr>polls := ps, now := started + int w\<rparr>;
                       waited = time_Sub (now s) started;
                       timeout = timeout - waited;
                       s = s\<lparr>shots := shots s @ [(screenshot_name i, Some img)]\<rparr>;
                       i = i + 1;
                       s = s\<lparr>now := now s + second\<rparr>;
                       timeout = timeout - second
                   in waitForIt_loop ref timeout i s)))
      else (Some (TimeoutWaitingFor ref), s))"
  by pat_completeness auto
termination
  by (relation "measure (\<lambda>(ref, timeout, i, s). length (polls s))") auto

definition waitForIt :: "string \<Rightarrow> int \<Rightarrow> world \<Rightarrow> error option \<times> world" where
  "waitForIt File Timeout s = waitForIt_loop File (Timeout * 1) 0 s"

declare waitForIt_loop.simps [simp del]

section \<open>Paths and lines\<close>

text \<open>
  The functions of \<^verbatim>\<open>strings\<close> and \<^verbatim>\<open>path/filepath\<close> that \<^verbatim>\<open>playFile\<close> calls, as the
  standard library documents them on Unix.
\<close>

fun hasPrefix :: "string \<Rightarrow> string \<Rightarrow> bool" where
  "hasPrefix s pre = (take (length pre) s = pre)"

text \<open>\<^verbatim>\<open>strings.Split(s, sep)\<close> for a separator of one character.\<close>

fun split_on :: "char \<Rightarrow> string \<Rightarrow> string list" where
  "split_on c [] = [[]]"
| "split_on c (x # xs) =
     (if x = c then [] # split_on c xs
      else (case split_on c xs of
              [] \<Rightarrow> [[x]]
            | y # ys \<Rightarrow> (x # y) # ys))"

fun join_with :: "string \<Rightarrow> string list \<Rightarrow> string" where
  "join_with sep [] = []"
| "join_with sep [x] = x"
| "join_with sep (x # y # ys) = x @ sep @ join_with sep (y # ys)"

text \<open>
  \<^verbatim>\<open>strings.SplitN(s, ":", 2)\<close>: the text before the first colon and the text after it,
  \<open>None\<close> when there is no colon (the result then has one element).
\<close>

fun splitN2 :: "string \<Rightarrow> (string \<times> string) option" where
  "splitN2 [] = None"
| "splitN2 (x # xs) =
     (if x = CHR '':'' then Some ([], xs)
      else (case splitN2 xs of
              None \<Rightarrow> None
            | Some (a, b) \<Rightarrow> Some (x # a, b)))"

definition IsAbs :: "string \<Rightarrow> bool" where
  "IsAbs path = hasPrefix path ''/''"

text \<open>
  \<^verbatim>\<open>filepath.Clean\<close>, element by element: empty elements and \<open>.\<close> are dropped, \<open>..\<close>
  removes the element before it, stays at the root of a rooted path, and is kept at the
  head of a relative one.
\<close>

definition clean_elem :: "bool \<Rightarrow> string list \<Rightarrow> string \<Rightarrow> string list" where
  "clean_elem rooted out c =
     (if c = [] \<or> c = ''.'' then out
      else if c = ''..'' then
        (if out \<noteq> [] \<and> last out \<noteq> ''..'' then butlast out
         else if rooted then out
         else out @ [''..''])
      else out @ [c])"

definition Clean :: "string \<Rightarrow> string" where
  "Clean path =
     (let rooted = hasPrefix path ''/'';
          out = foldl (clean_elem rooted) [] (split_on CHR ''/'' path)
      in if rooted then ''/'' @ join_with ''/'' out
         else if out = [] then ''.''
         else join_with ''/'' out)"

text \<open>\<^verbatim>\<open>filepath.Dir\<close>: the path up to its last slash, cleaned.\<close>

definition Dir :: "string \<Rightarrow> string" where
  "Dir path = Clean (rev (dropWhile (\<lambda>c. c \<noteq> CHR ''/'') (rev path)))"

text \<open>\<^verbatim>\<open>filepath.Join\<close>: leading empty elements are ignored.\<close>

definition Join :: "string list \<Rightarrow> string" where
  "Join elem =
     (case dropWhile (\<lambda>x. x = []) elem of
        [] \<Rightarrow> []
      | x # xs \<Rightarrow> Clean (join_with ''/'' (x # xs)))"

section \<open>The script interpreter\<close>

text \<open>
  What the interpreter needs from the rest of package vnc and from \<^verbatim>\<open>time\<close>:
  the script grammar \<^verbatim>\<open>parseEvent\<close>, \<^verbatim>\<open>time.ParseDuration\<close>, and \<^verbatim>\<open>getDuration\<close>, the
  total of a file's delays, here a function of the file's lines.
\<close>

record deps =
  parseEvent :: "string \<Rightarrow> error + iface"
  parseDuration :: "string \<Rightarrow> error + Duration"
  getDuration :: "string list \<Rightarrow> Duration"

text \<open>
  How a call of the interpreter ends: it returns nil, returns an error, panics, or waits
  for ever on the signal channel.
\<close>

datatype outcome = ReturnsNil | ReturnsErr error | Panics | Blocks

text \<open>The script-line wait ends at the label \<^verbatim>\<open>Event\<close> or leaves \<^verbatim>\<open>playFile\<close>.\<close>

datatype wait_result = GotoEvent | Exit outcome

text \<open>
  A bare receive \<^verbatim>\<open><-v.signal\<close>: on a closed channel it completes at once; otherwise it
  takes the next delivery of the environment, and without one the receiver waits for ever
  (\<open>None\<close>).
\<close>

definition recv_signal :: "world \<Rightarrow> (chan_item \<times> world) option" where
  "recv_signal s =
     (if signal_closed s then Some (ChanClosed, s)
      else case sigs s of
        Recv w ChanClosed # r \<Rightarrow>
          Some (ChanClosed, s\<lparr>sigs := r, now := now s + int w, signal_closed := True\<rparr>)
      | Recv w (Msg sg) # r \<Rightarrow> Some (Msg sg, s\<lparr>sigs := r, now := now s + int w\<rparr>)
      | _ \<Rightarrow> None)"

text \<open>
  The \<^verbatim>\<open>select\<close> between \<^verbatim>\<open>time.After(d)\<close> and the receive: \<open>None\<close> when the timer
  fires, the item received otherwise. The timer fires when the environment says so, and
  when the channel is open and nothing more is delivered.
\<close>

definition select_wait :: "Duration \<Rightarrow> world \<Rightarrow> chan_item option \<times> world" where
  "select_wait d s =
     (case sigs s of
        TimerFired # r \<Rightarrow> (None, s\<lparr>sigs := r, now := now s + max d 0\<rparr>)
      | _ \<Rightarrow>
          (case recv_signal s of
             None \<Rightarrow> (None, s\<lparr>now := now s + max d 0\<rparr>)
           | Some (x, s) \<Rightarrow> (Some x, s)))"

text \<open>
  The \<^verbatim>\<open>for { select { ... } }\<close> of \<^verbatim>\<open>playFile\<close>, for the file \<open>f\<close> and the outstanding
  delay \<open>d\<close>; \<open>play\<close> is the nested \<^verbatim>\<open>v.playFile\<close>. The first argument bounds the number
  of rounds; \<open>None\<close> means the bound was too small.
\<close>

primrec waitLoop :: "nat \<Rightarrow> (string option \<Rightarrow> string \<Rightarrow> world \<Rightarrow> (outcome \<times> world) option)
    \<Rightarrow> string \<Rightarrow> Duration \<Rightarrow> world \<Rightarrow> (wait_result \<times> world) option" where
  "waitLoop 0 play f d s = None"
| "waitLoop (Suc n) play f d s =
     (let started = now s;
          s = s\<lparr>timers := timers s @ [d]\<rparr>
      in case select_wait d s of
           (None, s) \<Rightarrow> Some (GotoEvent, addDuration (- d) s)
         | (Some ChanClosed, s) \<Rightarrow> Some (Exit ReturnsNil, s)
         | (Some (Msg sg), s) \<Rightarrow>
             (let waited = time_Sub started (now s);
                  s = addDuration (- waited) s;
                  d = d - waited
              in case kind sg of
                   Pause \<Rightarrow>
                     (case recv_signal s of
                        None \<Rightarrow> Some (Exit Blocks, s)
                      | Some (ChanClosed, s) \<Rightarrow> Some (Exit ReturnsNil, s)
                      | Some (Msg sg2, s) \<Rightarrow> waitLoop n play f d s)
                 | LoadFile \<Rightarrow>
                     (case data sg of
                        LoadFileEventVal File \<Rightarrow>
                          (case play (Some f) File s of
                             None \<Rightarrow> None
                           | Some (ReturnsNil, s) \<Rightarrow> waitLoop n play f d s
                           | Some (out, s) \<Rightarrow> Some (Exit out, s))
                      | _ \<Rightarrow> Some (Exit Panics, s))
                 | WaitForIt \<Rightarrow>
                     (case data sg of
                        WaitForItEventPtr File Timeout \<Rightarrow>
                          (case waitForIt File Timeout s of
                             (None, s) \<Rightarrow> waitLoop n play f d s
                           | (Some er, s) \<Rightarrow> Some (Exit (ReturnsErr er), s))
                      | _ \<Rightarrow> Some (Exit Panics, s))
                 | Step \<Rightarrow> Some (GotoEvent, addDuration (- d) s)
                 | Play \<Rightarrow> waitLoop n play f d s))"

text \<open>
  The \<^verbatim>\<open>for scanner.Scan()\<close> loop over the lines of the file \<open>f\<close>, with the \<^verbatim>\<open>switch\<close>
  at the label \<^verbatim>\<open>Event\<close>.
\<close>

fun playLines :: "nat \<Rightarrow> deps \<Rightarrow> (string option \<Rightarrow> string \<Rightarrow> world \<Rightarrow> (outcome \<times> world) option)
    \<Rightarrow> string \<Rightarrow> string list \<Rightarrow> world \<Rightarrow> (outcome \<times> world) option" where
  "playLines n D play f [] s = Some (ReturnsNil, s)"
| "playLines n D play f (text # rest) s =
     (case splitN2 text of
        None \<Rightarrow> playLines n D play f rest s
      | Some (s0, s1) \<Rightarrow>
          if hasPrefix s0 ''#'' then playLines n D play f rest s
          else
            (case parseEvent D s1 of
               Inl er \<Rightarrow> playLines n D play f rest s
             | Inr res \<Rightarrow>
                 (let s = setStep text s in
                  case parseDuration D (s0 @ ''ns'') of
                    Inl er \<Rightarrow> playLines n D play f rest s
                  | Inr d \<Rightarrow>
                      (case waitLoop n play f d s of
                         None \<Rightarrow> None
                       | Some (Exit out, s) \<Rightarrow> Some (out, s)
                       | Some (GotoEvent, s) \<Rightarrow>
                           (case res of
                              WireEvent x \<Rightarrow> playLines n D play f rest (s\<lparr>sent := sent s @ [res]\<rparr>)
                            | LoadFileEventPtr File \<Rightarrow>
                                (case play (Some f) File s of
                                   None \<Rightarrow> None
                                 | Some (ReturnsNil, s) \<Rightarrow> playLines n D play f rest s
                                 | Some (out, s) \<Rightarrow> Some (out, s))
                            | WaitForItEventPtr File Timeout \<Rightarrow>
                                (case waitForIt File Timeout s of
                                   (None, s) \<Rightarrow> playLines n D play f rest s
                                 | (Some er, s) \<Rightarrow> Some (ReturnsErr er, s))
                            | _ \<Rightarrow> playLines n D play f rest s)))))"

text \<open>The path that \<^verbatim>\<open>playFile\<close> opens for \<open>filename\<close> under the file \<open>parent\<close>.\<close>

definition resolve :: "string option \<Rightarrow> string \<Rightarrow> string" where
  "resolve parent filename =
     (case parent of
        None \<Rightarrow> filename
      | Some name \<Rightarrow> if \<not> IsAbs filename then Join [Dir name, filename] else filename)"

text \<open>
  \<^verbatim>\<open>playFile\<close>. The first argument bounds the nesting of files and the rounds of each
  wait; \<open>None\<close> means the bound was too small. The deferred \<^verbatim>\<open>resetFile\<close> runs when the
  body returns or panics, and only once \<^verbatim>\<open>setFile\<close> has succeeded.
\<close>

primrec playFile :: "nat \<Rightarrow> deps \<Rightarrow> string option \<Rightarrow> string \<Rightarrow> world \<Rightarrow> (outcome \<times> world) option" where
  "playFile 0 D = (\<lambda>parent filename s. None)"
| "playFile (Suc n) D = (\<lambda>parent filename s.
     let filename = resolve parent filename;
         s = s\<lparr>opened := opened s @ [filename]\<rparr>
     in case fs s filename of
          None \<Rightarrow> Some (ReturnsErr (OpenError filename), s)
        | Some lines \<Rightarrow>
            (let s = addDuration (getDuration D lines) s in
             case setFile (Some filename) s of
               (old, Some er, s) \<Rightarrow> Some (ReturnsErr er, s)
             | (old, None, s) \<Rightarrow>
                 (case playLines n D (playFile n D) filename lines s of
                    None \<Rightarrow> None
                  | Some (Blocks, s) \<Rightarrow> Some (Blocks, s)
                  | Some (out, s) \<Rightarrow> Some (out, resetFile old s))))"

section \<open>A small grammar to run scripts with\<close>

text \<open>
  An instance of the collaborators, for running the interpreter on concrete scripts: delays
  are decimal digits, and a directive is \<open>KeyEvent,...\<close> (a wire event), \<open>LoadFile,path\<close> or
  \<open>WaitForIt,timeout,reference\<close>.
\<close>

fun digits_value :: "nat \<Rightarrow> string \<Rightarrow> nat option" where
  "digits_value acc [] = Some acc"
| "digits_value acc (c # cs) =
     (if (48::nat) \<le> of_char c \<and> of_char c \<le> (57::nat)
      then digits_value (10 * acc + (of_char c - 48)) cs
      else None)"

definition demo_number :: "string \<Rightarrow> nat option" where
  "demo_number txt = (if txt = [] then None else digits_value 0 txt)"

definition demo_parseDuration :: "string \<Rightarrow> error + Duration" where
  "demo_parseDuration txt =
     (if length txt \<ge> 2 \<and> drop (length txt - 2) txt = ''ns''
      then (case demo_number (take (length txt - 2) txt) of
              None \<Rightarrow> Inl (ParseError txt)
            | Some n \<Rightarrow> Inr (int n))
      else Inl (ParseError txt))"

definition demo_parseEvent :: "string \<Rightarrow> error + iface" where
  "demo_parseEvent txt =
     (if hasPrefix txt ''KeyEvent,'' then Inr (WireEvent txt)
      else if hasPrefix txt ''LoadFile,'' then Inr (LoadFileEventPtr (drop 9 txt))
      else if hasPrefix txt ''WaitForIt,'' then
        (case splitN2 (map (\<lambda>c. if c = CHR '','' then CHR '':'' else c) (drop 10 txt)) of
           None \<Rightarrow> Inl (ParseError txt)
         | Some (t, ref) \<Rightarrow>
             (case demo_number t of
                None \<Rightarrow> Inl (ParseError txt)
              | Some n \<Rightarrow> Inr (WaitForItEventPtr ref (int n))))
      else Inl (ParseError txt))"

definition demo_getDuration :: "string list \<Rightarrow> Duration" where
  "demo_getDuration lines =
     sum_list (map (\<lambda>text. case splitN2 text of
                              None \<Rightarrow> 0
                            | Some (s0, s1) \<Rightarrow>
                                (case demo_parseDuration (s0 @ ''ns'') of
                                   Inl er \<Rightarrow> 0
                                 | Inr d \<Rightarrow> d)) lines)"

definition demo :: deps where
  "demo = \<lparr>parseEvent = demo_parseEvent, parseDuration = demo_parseDuration,
            getDuration = demo_getDuration\<rparr>"

text \<open>A fresh session, as \<^verbatim>\<open>newPlayback\<close> makes it, in a world with the given files.\<close>

definition new_world :: "(string \<times> string list) list \<Rightarrow> decision list \<Rightarrow> poll list \<Rightarrow> world" where
  "new_world files ds ps =
     \<lparr>ID = ''kb0'', rhost = ''host:5900'', start = 0, depth = 0, duration = 0, e = [],
      state = Play, closed = False, file' = None, err = None,
      fs = map_of files, now = 0, sigs = ds, signal_closed = False, polls = ps, sent = [], timers = [],
      opened = [], shots = []\<rparr>"

section \<open>Sequences of calls on a session\<close>

text \<open>
  The operations that change a session, as values, to speak about every sequence of calls.
  The mutex makes the calls atomic, so a history of the session is a list of them.
\<close>

datatype call =
    CallStart "error option" Time
  | CallStep
  | CallPause
  | CallContinue
  | CallStop
  | CallInject string
  | CallSetFile "string option"
  | CallResetFile "string option"
  | CallSetStep string
  | CallAddDuration Duration

fun do_call :: "(string \<Rightarrow> error + iface) \<Rightarrow> call \<Rightarrow> 'a playback_scheme \<Rightarrow> 'a playback_scheme" where
  "do_call pe (CallStart wr t) p = snd (Start wr t p)"
| "do_call pe CallStep p = fst (snd (Step_op p))"
| "do_call pe CallPause p = fst (snd (Pause_op p))"
| "do_call pe CallContinue p = fst (snd (Continue p))"
| "do_call pe CallStop p = fst (snd (Stop p))"
| "do_call pe (CallInject cmd) p = fst (snd (Inject pe cmd p))"
| "do_call pe (CallSetFile f) p = snd (snd (setFile f p))"
| "do_call pe (CallResetFile old) p = resetFile old p"
| "do_call pe (CallSetStep s) p = setStep s p"
| "do_call pe (CallAddDuration d) p = addDuration d p"

fun run_calls :: "(string \<Rightarrow> error + iface) \<Rightarrow> call list \<Rightarrow> 'a playback_scheme \<Rightarrow> 'a playback_scheme" where
  "run_calls pe [] p = p"
| "run_calls pe (c # cs) p = run_calls pe cs (do_call pe c p)"

section \<open>The kinds of line that are not played\<close>

text \<open>
  A line without the separator; a comment; a line whose directive the grammar rejects; a
  line whose delay \<^verbatim>\<open>time.ParseDuration\<close> rejects.
\<close>

definition malformed :: "string \<Rightarrow> bool" where
  "malformed text = (splitN2 text = None)"

definition is_comment :: "string \<Rightarrow> bool" where
  "is_comment text =
     (case splitN2 text of None \<Rightarrow> False | Some (s0, s1) \<Rightarrow> hasPrefix s0 ''#'')"

definition directive_fails :: "deps \<Rightarrow> string \<Rightarrow> bool" where
  "directive_fails D text =
     (case splitN2 text of None \<Rightarrow> False | Some (s0, s1) \<Rightarrow> isl (parseEvent D s1))"

definition delay_fails :: "deps \<Rightarrow> string \<Rightarrow> bool" where
  "delay_fails D text =
     (case splitN2 text of None \<Rightarrow> False | Some (s0, s1) \<Rightarrow> isl (parseDuration D (s0 @ ''ns'')))"

section \<open>The search matcher\<close>

text \<open>
  \<^verbatim>\<open>ExpressionTree.match\<close> of the search collaborator. A vm has the fields that \<^verbatim>\<open>match\<close>
  reads. The class \<^verbatim>\<open>IPV4\<close> is a parameter: \<open>setAddress\<close> gives the address parsed from
  the term (\<open>None\<close> when \<^verbatim>\<open>address\<close> stays undefined) and \<open>contains\<close> tests a network.
\<close>

record vm =
  vm_name :: string
  vm_host :: string
  vm_tags :: string
  vm_disk :: string
  vm_vlan :: string
  vm_ip :: string
  vm_state :: string
  vm_busy :: bool
  vm_captures :: "string list"
  vm_DoNotBoot :: bool

record 'a IPV4 =
  setAddress :: "string \<Rightarrow> 'a option"
  contains :: "'a \<Rightarrow> string \<Rightarrow> bool"

text \<open>The string methods, on ASCII.\<close>

definition toLowerCase :: "string \<Rightarrow> string" where
  "toLowerCase s =
     map (\<lambda>c. if (65::nat) \<le> of_char c \<and> of_char c \<le> (90::nat)
               then char_of (of_char c + (32::nat)) else c) s"

fun includes_str :: "string \<Rightarrow> string \<Rightarrow> bool" where
  "includes_str [] t = (t = [])"
| "includes_str (x # xs) t = (hasPrefix (x # xs) t \<or> includes_str xs t)"

definition isSpace :: "char \<Rightarrow> bool" where
  "isSpace c = (c \<in> set [CHR '' '', CHR 0x09, CHR 0x0A, CHR 0x0B, CHR 0x0C, CHR 0x0D])"

definition trim :: "string \<Rightarrow> string" where
  "trim s = rev (dropWhile isSpace (rev (dropWhile isSpace s)))"

text \<open>\<^verbatim>\<open>s.replace(/[\[\]]/g, "").split(",")\<close>\<close>

definition bracket_list :: "string \<Rightarrow> string list" where
  "bracket_list s = split_on CHR '','' (filter (\<lambda>c. c \<noteq> CHR ''['' \<and> c \<noteq> CHR '']'') s)"

text \<open>
  One round of the loop over the search fields: \<open>Some b\<close> when the round returns \<open>b\<close>,
  \<open>None\<close> when the loop goes on to the next field. The case \<^verbatim>\<open>"Name"\<close> has no
  \<^verbatim>\<open>continue\<close> and runs on into the case \<^verbatim>\<open>"Host"\<close>, which follows it in the
  \<^verbatim>\<open>switch\<close>.
\<close>

definition case_Host :: "string \<Rightarrow> vm \<Rightarrow> bool option" where
  "case_Host term v =
     (if includes_str (toLowerCase (vm_host v)) term then Some True else None)"

definition match_field :: "'a IPV4 \<Rightarrow> string \<Rightarrow> vm \<Rightarrow> string \<Rightarrow> bool option" where
  "match_field I term v field =
     (if field = ''IPv4'' then
        (case setAddress I term of
           None \<Rightarrow> None
         | Some refNet \<Rightarrow>
             if list_ex (\<lambda>network. contains I refNet (trim network)) (bracket_list (vm_ip v))
             then Some True else None)
      else if field = ''State'' then
        (if term = ''shutdown'' \<or> term = ''quit''
         then Some (toLowerCase (vm_state v) = ''quit'')
         else Some (toLowerCase (vm_state v) = term))
      else if field = ''Busy'' then Some (vm_busy v)
      else if field = ''Captures'' then Some (length (vm_captures v) > 0)
      else if field = ''DoNotBoot'' then Some (vm_DoNotBoot v)
      else if field = ''Vlans'' then
        (if list_ex (\<lambda>vlan. includes_str (trim (toLowerCase vlan)) term) (bracket_list (vm_vlan v))
         then Some True else None)
      else if field = ''Name'' then
        (if includes_str (toLowerCase (vm_name v)) term then Some True
         else case_Host term v)
      else if field = ''Host'' then case_Host term v
      else if field = ''Tags'' then
        (if includes_str (toLowerCase (vm_tags v)) term then Some True else None)
      else if field = ''Disk'' then
        (if includes_str (toLowerCase (vm_disk v)) term then Some True else None)
      else None)"

fun match :: "'a IPV4 \<Rightarrow> string \<Rightarrow> vm \<Rightarrow> string list \<Rightarrow> bool" where
  "match I term v [] = False"
| "match I term v (field # searchFields) =
     (case match_field I term v field of
        Some b \<Rightarrow> b
      | None \<Rightarrow> match I term v searchFields)"

text \<open>The polls at which \<^verbatim>\<open>waitForIt\<close> fails for another reason than the timeout.\<close>

fun poll_fails :: "poll \<Rightarrow> bool" where
  "poll_fails (FbWriteFails er) = True"
| "poll_fails (FrameCreateFails w er) = True"
| "poll_fails (FrameEncodeFails w er) = True"
| "poll_fails Expired = False"
| "poll_fails (Frame w img) = False"

section \<open>The close transition\<close>

lemma do_call_closed: "closed p \<Longrightarrow> closed (do_call pe c p)"
  by (cases c)
     (auto simp: Start_def Step_op_def Pause_op_def Continue_def Stop_def Inject_def setFile_def
        resetFile_def setStep_def addDuration_def Let_def split: option.splits sum.splits iface.splits)

lemma run_calls_closed: "closed p \<Longrightarrow> closed (run_calls pe cs p)"
  by (induction cs arbitrary: p) (auto simp: do_call_closed)

text \<open>The interpreter never writes \<open>closed\<close>.\<close>

lemma waitForIt_loop_closed: "closed (snd (waitForIt_loop ref timeout i s)) = closed s"
proof (induction ref timeout i s rule: waitForIt_loop.induct)
  case (1 ref timeout i s)
  show ?case
    apply (subst waitForIt_loop.simps)
    using 1
    by (auto simp: Let_def split: list.splits poll.splits)
qed

lemma waitForIt_closed:
  "waitForIt File Timeout s = (r, s') \<Longrightarrow> closed s \<Longrightarrow> closed s'"
  using waitForIt_loop_closed [of File "Timeout * 1" 0 s] by (simp add: waitForIt_def)

lemma waitLoop_closed:
  assumes "\<forall>p fn s r s'. play p fn s = Some (r, s') \<longrightarrow> closed s \<longrightarrow> closed s'"
  shows "waitLoop n play f d s = Some (r, s') \<Longrightarrow> closed s \<Longrightarrow> closed s'"
proof (induction n arbitrary: d s r s')
  case 0
  then show ?case by simp
next
  case (Suc n)
  from assms have play: "\<And>p fn s r s'. play p fn s = Some (r, s') \<Longrightarrow> closed s \<Longrightarrow> closed s'"
    by blast
  from Suc.prems show ?case
    by (auto simp: Let_def addDuration_def recv_signal_def select_wait_def
        split: list.splits decision.splits chan_item.splits Control.splits iface.splits
          option.splits prod.splits outcome.splits if_splits
        dest: waitForIt_closed play Suc.IH)
qed

lemma playLines_closed:
  assumes "\<forall>p fn s r s'. play p fn s = Some (r, s') \<longrightarrow> closed s \<longrightarrow> closed s'"
  shows "playLines n D play f lines s = Some (r, s') \<Longrightarrow> closed s \<Longrightarrow> closed s'"
proof (induction lines arbitrary: s r s')
  case Nil
  then show ?case by simp
next
  case (Cons ln rest)
  from assms have play: "\<And>p fn s r s'. play p fn s = Some (r, s') \<Longrightarrow> closed s \<Longrightarrow> closed s'"
    by blast
  note wl = waitLoop_closed [OF assms]
  have wl': "closed t"
    if "waitLoop n play f d (s\<lparr>e := u\<rparr>) = Some (q, t)" for d u q t
    using wl [OF that] Cons.prems(2) by simp
  have ih': "closed t"
    if "playLines n D play f rest (x\<lparr>sent := v\<rparr>) = Some (q, t)" and "closed x"
    for x v q t
    using Cons.IH [OF that(1)] that(2) by simp
  from Cons.prems show ?case
    by (auto simp: Let_def setStep_def
        split: option.splits prod.splits sum.splits if_splits wait_result.splits iface.splits
          outcome.splits
        dest: waitForIt_closed play wl' ih' Cons.IH)
qed

lemma playFile_closed:
  "playFile n D parent filename s = Some (r, s') \<Longrightarrow> closed s \<Longrightarrow> closed s'"
proof (induction n arbitrary: parent filename s r s')
  case 0
  then show ?case by simp
next
  case (Suc n)
  from Suc.IH have "\<forall>p fn s r s'. playFile n D p fn s = Some (r, s') \<longrightarrow> closed s \<longrightarrow> closed s'"
    by blast
  note pl = playLines_closed [OF this]
  from Suc.prems show ?case
    by (auto simp: Let_def setFile_def resetFile_def addDuration_def
        split: option.splits prod.splits outcome.splits if_splits
        dest: pl)
qed

text \<open>
  C5: \<^verbatim>\<open>Stop\<close> on a session that is not closed closes the signal channel, sets \<open>closed\<close> and
  returns no error; on a closed session it returns an error and changes nothing. After one
  \<^verbatim>\<open>Stop\<close>, whatever calls follow, a further \<^verbatim>\<open>Stop\<close> returns the error, and neither a
  sequence of calls nor a run of the interpreter turns \<open>closed\<close> from true to false.
\<close>

theorem Stop_once:
  "(\<not> closed p \<longrightarrow> Stop p = (None, p\<lparr>closed := True\<rparr>, CloseSignal))
   \<and> (closed p \<longrightarrow> Stop p = (Some AlreadyStopped, p, NoSend))
   \<and> Stop (run_calls pe cs (fst (snd (Stop p)))) =
       (Some AlreadyStopped, run_calls pe cs (fst (snd (Stop p))), NoSend)
   \<and> (closed p \<longrightarrow> closed (run_calls pe cs p))
   \<and> (closed s \<and> playFile n D parent filename s = Some (r, s') \<longrightarrow> closed s')"
proof -
  have c: "closed (fst (snd (Stop p)))" by (simp add: Stop_def)
  have "closed (run_calls pe cs (fst (snd (Stop p))))" by (rule run_calls_closed [OF c])
  then have a: "(\<not> closed p \<longrightarrow> Stop p = (None, p\<lparr>closed := True\<rparr>, CloseSignal))
   \<and> (closed p \<longrightarrow> Stop p = (Some AlreadyStopped, p, NoSend))
   \<and> Stop (run_calls pe cs (fst (snd (Stop p)))) =
       (Some AlreadyStopped, run_calls pe cs (fst (snd (Stop p))), NoSend)
   \<and> (closed p \<longrightarrow> closed (run_calls pe cs p))"
    by (simp add: Stop_def run_calls_closed)
  have b: "closed s \<and> playFile n D parent filename s = Some (r, s') \<longrightarrow> closed s'"
    using playFile_closed by blast
  from a b show ?thesis by blast
qed

theorem Stop_once_witness:
  "Stop (new_world [] [] []) = (None, (new_world [] [] [])\<lparr>closed := True\<rparr>, CloseSignal)
   \<and> Stop ((new_world [] [] [])\<lparr>closed := True\<rparr>) =
       (Some AlreadyStopped, (new_world [] [] [])\<lparr>closed := True\<rparr>, NoSend)
   \<and> closed (run_calls demo_parseEvent
        [CallStart None 5, CallContinue, CallInject ''KeyEvent,true,a'', CallStop]
        ((new_world [] [] [])\<lparr>closed := True\<rparr>))
   \<and> closed (snd (the (playFile (Suc 1) demo None ''/a/main.scr''
        ((new_world [(''/a/main.scr'', [''0:KeyEvent,true,a''])] [] [])\<lparr>closed := True\<rparr>))))"
proof -
  define W where "W = (new_world [(''/a/main.scr'', [''0:KeyEvent,true,a''])] [] [])\<lparr>closed := True\<rparr>"
  define X where "X = playFile (Suc 1) demo None ''/a/main.scr'' W"
  have "X \<noteq> None" unfolding X_def W_def by code_simp
  then obtain r s' where ev: "X = Some (r, s')" by (cases X) auto
  have cl: "closed W" by (simp add: W_def)
  from Stop_once [of "new_world [] [] []" demo_parseEvent "[]" W "Suc 1" demo None "''/a/main.scr''" r s']
    cl ev
  have "closed s'" unfolding X_def by blast
  then have a: "closed (snd (the X))" by (simp only: ev option.sel snd_conv)
  have b: "Stop (new_world [] [] []) = (None, (new_world [] [] [])\<lparr>closed := True\<rparr>, CloseSignal)
   \<and> Stop ((new_world [] [] [])\<lparr>closed := True\<rparr>) =
       (Some AlreadyStopped, (new_world [] [] [])\<lparr>closed := True\<rparr>, NoSend)
   \<and> closed (run_calls demo_parseEvent
        [CallStart None 5, CallContinue, CallInject ''KeyEvent,true,a'', CallStop]
        ((new_world [] [] [])\<lparr>closed := True\<rparr>))"
    using Stop_once [of "new_world [] [] []" demo_parseEvent "[]"]
      Stop_once [of "(new_world [] [] [])\<lparr>closed := True\<rparr>" demo_parseEvent
        "[CallStart None 5, CallContinue, CallInject ''KeyEvent,true,a'', CallStop]"]
    by (simp add: new_world_def)
  from a b show ?thesis unfolding X_def W_def by blast
qed

section \<open>The status queries\<close>

text \<open>
  C6, as the code has it: on a session that is not closed and has a current file,
  \<^verbatim>\<open>Info\<close> returns the id, the kind, \<open>PAUSED\<close> or the remaining duration, and the name of
  the current file, and \<^verbatim>\<open>GetStep\<close> on a session that is not closed returns the current
  event; on a closed session \<^verbatim>\<open>Info\<close> returns nil and \<^verbatim>\<open>GetStep\<close> returns an error.
\<close>

theorem Info_GetStep_open:
  "(\<not> closed p \<and> file' p = Some name \<longrightarrow>
      Info ds p = Returns [ID p, ''playback kb'',
                           if state p = Pause then ''PAUSED'' else ds (duration p) @ '' remaining'',
                           name])
   \<and> (\<not> closed p \<longrightarrow> GetStep p = (e p, None))
   \<and> (closed p \<longrightarrow> Info ds p = Returns [] \<and> GetStep p = ([], Some AlreadyStopped))"
  by (simp add: Info_def GetStep_def Let_def)

theorem Info_GetStep_open_witness:
  "Info (\<lambda>d. string_of_nat (nat d) @ ''ns'')
     ((new_world [] [] [])\<lparr>duration := 7, file' := Some ''/a/main.scr'', e := ''0:KeyEvent,true,a''\<rparr>) =
     Returns [''kb0'', ''playback kb'', ''7ns remaining'', ''/a/main.scr'']
   \<and> GetStep ((new_world [] [] [])\<lparr>duration := 7, file' := Some ''/a/main.scr'', e := ''0:KeyEvent,true,a''\<rparr>) =
       (''0:KeyEvent,true,a'', None)
   \<and> Info (\<lambda>d. string_of_nat (nat d) @ ''ns'') ((new_world [] [] [])\<lparr>closed := True\<rparr>) = Returns []"
  using Info_GetStep_open [of "(new_world [] [] [])\<lparr>duration := 7, file' := Some ''/a/main.scr'',
        e := ''0:KeyEvent,true,a''\<rparr>" "''/a/main.scr''" "\<lambda>d. string_of_nat (nat d) @ ''ns''"]
    Info_GetStep_open [of "(new_world [] [] [])\<lparr>closed := True\<rparr>" "[]" "\<lambda>d. string_of_nat (nat d) @ ''ns''"]
  by (simp add: new_world_def string_of_nat.simps)

text \<open>On a closed session the two queries give no status: nil, and an error.\<close>

theorem Info_GetStep_closed_counterexample:
  "Info (\<lambda>d. string_of_nat (nat d) @ ''ns'')
     ((new_world [] [] [])\<lparr>closed := True, file' := Some ''/a/main.scr'', e := ''0:KeyEvent,true,a''\<rparr>) =
     Returns []
   \<and> GetStep ((new_world [] [] [])\<lparr>closed := True, file' := Some ''/a/main.scr'',
        e := ''0:KeyEvent,true,a''\<rparr>) = ([], Some AlreadyStopped)"
  by (simp add: Info_def GetStep_def new_world_def)

section \<open>The synchronizer never succeeds\<close>

lemma waitForIt_loop_error: "fst (waitForIt_loop ref timeout i s) \<noteq> None"
proof (induction ref timeout i s rule: waitForIt_loop.induct)
  case (1 ref timeout i s)
  show ?case
    apply (subst waitForIt_loop.simps)
    using 1
    by (auto simp: Let_def split: list.splits poll.splits)
qed

lemma waitForIt_loop_timeout:
  "\<not> list_ex poll_fails (polls s) \<Longrightarrow>
    fst (waitForIt_loop ref timeout i s) = Some (TimeoutWaitingFor ref)"
proof (induction ref timeout i s rule: waitForIt_loop.induct)
  case (1 ref timeout i s)
  show ?case
    apply (subst waitForIt_loop.simps)
    using 1
    by (auto simp: Let_def split: list.splits poll.splits)
qed

text \<open>
  C2, as the code has it: \<^verbatim>\<open>waitForIt\<close> never returns nil. When the timeout is not
  positive, or no frame comes before the timer fires, it returns the timeout error that
  names the reference and writes no file. When a frame comes first, the frame is written to
  \<open>screenshot-0.png\<close> and the loop polls again, with the timeout less the time waited and
  less the second slept. Unless a request or a file fails to be written, the error at the
  end is the timeout error, however many frames came.
\<close>

theorem waitForIt_never_succeeds:
  "fst (waitForIt File Timeout s) \<noteq> None
   \<and> (Timeout \<le> 0 \<or> polls s = [] \<or> (\<exists>ps. polls s = Expired # ps) \<longrightarrow>
        fst (waitForIt File Timeout s) = Some (TimeoutWaitingFor File)
        \<and> shots (snd (waitForIt File Timeout s)) = shots s)
   \<and> (0 < Timeout \<and> polls s = Frame w img # ps \<longrightarrow>
        waitForIt File Timeout s =
          waitForIt_loop File (Timeout - int w - second) 1
            (s\<lparr>polls := ps, shots := shots s @ [(screenshot_name 0, Some img)],
               now := now s + int w + second\<rparr>))
   \<and> (\<not> list_ex poll_fails (polls s) \<longrightarrow>
        fst (waitForIt File Timeout s) = Some (TimeoutWaitingFor File))"
proof -
  have d: "\<not> list_ex poll_fails (polls s) \<longrightarrow>
        fst (waitForIt File Timeout s) = Some (TimeoutWaitingFor File)"
    by (simp add: waitForIt_def waitForIt_loop_timeout)
  have a: "fst (waitForIt File Timeout s) \<noteq> None"
    by (simp add: waitForIt_def waitForIt_loop_error)
  have b: "Timeout \<le> 0 \<or> polls s = [] \<or> (\<exists>ps. polls s = Expired # ps) \<longrightarrow>
        fst (waitForIt File Timeout s) = Some (TimeoutWaitingFor File)
        \<and> shots (snd (waitForIt File Timeout s)) = shots s"
    by (cases "polls s") (auto simp: waitForIt_def waitForIt_loop.simps [of File])
  have c: "0 < Timeout \<and> polls s = Frame w img # ps \<longrightarrow>
        waitForIt File Timeout s =
          waitForIt_loop File (Timeout - int w - second) 1
            (s\<lparr>polls := ps, shots := shots s @ [(screenshot_name 0, Some img)],
               now := now s + int w + second\<rparr>)"
    by (simp add: waitForIt_def waitForIt_loop.simps [of File Timeout] Let_def time_Sub_def)
  from a b c d show ?thesis by blast
qed

theorem waitForIt_never_succeeds_witness:
  "fst (waitForIt ''ref.png'' 2000000000 (new_world [] [] [])) = Some (TimeoutWaitingFor ''ref.png'')
   \<and> shots (snd (waitForIt ''ref.png'' 2000000000 (new_world [] [] []))) = []
   \<and> waitForIt ''ref.png'' 2000000000 (new_world [] [] [Frame 500000000 ''img'']) =
       waitForIt_loop ''ref.png'' 500000000 1
         ((new_world [] [] [])\<lparr>shots := [(''screenshot-0.png'', Some ''img'')], now := 1500000000\<rparr>)"
  using waitForIt_never_succeeds [of "''ref.png''" 2000000000 "new_world [] [] []"]
    waitForIt_never_succeeds [of "''ref.png''" 2000000000 "new_world [] [] [Frame 500000000 ''img'']"
      500000000 "''img''" "[]"]
  by (simp add: new_world_def second_def screenshot_name_def string_of_nat.simps)

text \<open>
  A timeout of two seconds and one frame after half a second: the frame is written, and the
  call still ends with the timeout error.
\<close>

theorem waitForIt_frame_counterexample:
  "fst (waitForIt ''ref.png'' 2000000000 (new_world [] [] [Frame 500000000 ''img''])) =
     Some (TimeoutWaitingFor ''ref.png'')
   \<and> shots (snd (waitForIt ''ref.png'' 2000000000 (new_world [] [] [Frame 500000000 ''img'']))) =
       [(''screenshot-0.png'', Some ''img'')]"
  by (simp add: waitForIt_def waitForIt_loop.simps new_world_def second_def time_Sub_def
      screenshot_name_def string_of_nat.simps)

section \<open>Signals during a script-line wait\<close>

text \<open>
  C7: when the wait receives a \<^verbatim>\<open>Step\<close> signal after \<open>w\<close> nanoseconds (on the channel,
  which is then open), it adds \<open>w\<close> back to the estimate, takes the outstanding delay
  (which the code holds as \<open>d + w\<close>) off the estimate, and goes to the label \<^verbatim>\<open>Event\<close> at
  once: no other timer is set and no other signal is read. The estimate ends \<open>d\<close> lower
  than it was before the wait.
\<close>

theorem Step_acts_at_once:
  assumes "sigs s = Recv w (Msg sg) # r" and "\<not> signal_closed s" and "kind sg = Step"
  shows "waitLoop (Suc n) play f d s =
    Some (GotoEvent,
      addDuration (- (d + int w))
        (addDuration (int w) (s\<lparr>timers := timers s @ [d], sigs := r, now := now s + int w\<rparr>)))"
  using assms by (simp add: Let_def time_Sub_def addDuration_def select_wait_def recv_signal_def)

theorem Step_acts_at_once_witness:
  "map_option (\<lambda>(r, s). (r, duration s, timers s, sigs s, now s))
     (waitLoop 1 (playFile 0 demo) ''/a/main.scr'' 1000
        (new_world [] [Recv 400 (Msg \<lparr>kind = Step, data = NilValue\<rparr>)] [])) =
   Some (GotoEvent, - 1000, [1000], [], 400)"
  using Step_acts_at_once [of "new_world [] [Recv 400 (Msg \<lparr>kind = Step, data = NilValue\<rparr>)] []"
      400 "\<lparr>kind = Step, data = NilValue\<rparr>" "[]" 0 "playFile 0 demo" "''/a/main.scr''" 1000]
  by (simp add: new_world_def addDuration_def)

section \<open>Lines that are not played\<close>

text \<open>
  C9: a line that is malformed, is a comment, has a directive that does not parse or a
  delay that does not parse is skipped: the loop goes on with the rest of the script and
  returns what the rest returns. Only in the last case has the line become the current
  event.
\<close>

theorem skipped_lines:
  assumes "malformed text \<or> is_comment text \<or> directive_fails D text \<or> delay_fails D text"
  shows "playLines n D play f (text # rest) s =
    playLines n D play f rest
      (if malformed text \<or> is_comment text \<or> directive_fails D text then s else setStep text s)"
  using assms
  by (auto simp: malformed_def is_comment_def directive_fails_def delay_fails_def Let_def
      split: option.splits sum.splits)

theorem skipped_lines_witness:
  "playLines 0 demo (playFile 0 demo) ''/a/main.scr'' [''no separator''] (new_world [] [] []) =
     Some (ReturnsNil, new_world [] [] [])
   \<and> playLines 0 demo (playFile 0 demo) ''/a/main.scr'' [''# a note: here''] (new_world [] [] []) =
     Some (ReturnsNil, new_world [] [] [])
   \<and> playLines 0 demo (playFile 0 demo) ''/a/main.scr'' [''5:Nonsense''] (new_world [] [] []) =
     Some (ReturnsNil, new_world [] [] [])
   \<and> playLines 0 demo (playFile 0 demo) ''/a/main.scr'' [''x:KeyEvent,true,a''] (new_world [] [] []) =
     Some (ReturnsNil, setStep ''x:KeyEvent,true,a'' (new_world [] [] []))"
proof -
  have 1: "malformed ''no separator''" by code_simp
  have 2: "\<not> malformed ''# a note: here'' \<and> is_comment ''# a note: here''" by code_simp
  have 3: "\<not> malformed ''5:Nonsense'' \<and> \<not> is_comment ''5:Nonsense''
     \<and> directive_fails demo ''5:Nonsense''" by code_simp
  have 4: "\<not> malformed ''x:KeyEvent,true,a'' \<and> \<not> is_comment ''x:KeyEvent,true,a''
     \<and> \<not> directive_fails demo ''x:KeyEvent,true,a'' \<and> delay_fails demo ''x:KeyEvent,true,a''" by code_simp
  show ?thesis
    using skipped_lines [of "''no separator''" demo 0 "playFile 0 demo" "''/a/main.scr''" "[]"
        "new_world [] [] []"]
      skipped_lines [of "''# a note: here''" demo 0 "playFile 0 demo" "''/a/main.scr''" "[]"
        "new_world [] [] []"]
      skipped_lines [of "''5:Nonsense''" demo 0 "playFile 0 demo" "''/a/main.scr''" "[]"
        "new_world [] [] []"]
      skipped_lines [of "''x:KeyEvent,true,a''" demo 0 "playFile 0 demo" "''/a/main.scr''" "[]"
        "new_world [] [] []"]
      1 2 3 4
    by (simp only: playLines.simps if_True if_False simp_thms)
qed

section \<open>Pause and resume\<close>

text \<open>
  A wait that receives \<^verbatim>\<open>Pause\<close> after \<open>w\<close> nanoseconds and then any other signal goes
  round again with the outstanding delay \<open>d + w\<close>: \<^verbatim>\<open>start.Sub(time.Now())\<close> is \<open>- w\<close>, and
  it is subtracted from \<open>d\<close>. The estimate has \<open>w\<close> added back.
\<close>

lemma Pause_then_signal:
  assumes "sigs s = Recv w (Msg sg) # Recv w2 (Msg sg2) # r" and "\<not> signal_closed s"
    and "kind sg = Pause"
  shows "waitLoop (Suc n) play f d s =
    waitLoop n play f (d + int w)
      (addDuration (int w)
        (s\<lparr>timers := timers s @ [d], sigs := r, now := now s + int w + int w2\<rparr>))"
  using assms
  apply (simp add: Let_def time_Sub_def addDuration_def recv_signal_def select_wait_def)
  apply (rule arg_cong [where f = "waitLoop n play f (d + int w)"])
  apply (cases s)
  apply simp
  done

text \<open>
  C1 says that after an interruption at \<open>w\<close> the wait resumes for \<open>d - w\<close>. On the script
  \<open>1000:KeyEvent,true,a\<close>, paused 400 nanoseconds into the wait and resumed later, the code
  sets its second timer to 1400 nanoseconds, not to 600; the estimate, 1000 at the start,
  has the 400 added back and the 1400 taken off.
\<close>

theorem Pause_Play_waits_longer:
  "map_option (\<lambda>(r, s). (r, timers s, duration s, sent s))
     (playFile 3 demo None ''/a/main.scr''
        (new_world [(''/a/main.scr'', [''1000:KeyEvent,true,a''])]
           [Recv 400 (Msg \<lparr>kind = Pause, data = NilValue\<rparr>),
            Recv 5000 (Msg \<lparr>kind = Play, data = NilValue\<rparr>)] [])) =
   Some (ReturnsNil, [1000, 1400], 0, [WireEvent ''KeyEvent,true,a''])"
  by code_simp

section \<open>An injected include\<close>

text \<open>
  The wait asserts that the data of a \<^verbatim>\<open>LoadFile\<close> signal is a \<^verbatim>\<open>LoadFileEvent\<close> value;
  \<^verbatim>\<open>Inject\<close> sends the pointer that \<^verbatim>\<open>parseEvent\<close> returned, so the assertion panics.
\<close>

lemma LoadFile_signal_panics:
  assumes "sigs s = Recv w (Msg \<lparr>kind = LoadFile, data = LoadFileEventPtr File\<rparr>) # r"
    and "\<not> signal_closed s"
  shows "waitLoop (Suc n) play f d s =
    Some (Exit Panics,
      addDuration (int w) (s\<lparr>timers := timers s @ [d], sigs := r, now := now s + int w\<rparr>))"
  using assms by (simp add: Let_def time_Sub_def addDuration_def select_wait_def recv_signal_def)

text \<open>
  C4 says that an injected \<^verbatim>\<open>LoadFile\<close> is interpreted to completion without a panic.
  \<^verbatim>\<open>Inject\<close> of \<open>LoadFile,sub.scr\<close> on an open session puts the signal on the channel; the
  interpreter that receives it 400 nanoseconds into the wait of \<open>1000:KeyEvent,true,a\<close> panics:
  \<open>sub.scr\<close> is never opened and no event is sent.
\<close>

theorem injected_LoadFile_panics:
  "(case Inject demo_parseEvent ''LoadFile,sub.scr'' (new_world [] [] []) of
      (er, p, a) \<Rightarrow> (er, a)) =
     (None, SendSignal \<lparr>kind = LoadFile, data = LoadFileEventPtr ''sub.scr''\<rparr>)
   \<and> map_option (\<lambda>(r, s). (r, opened s, sent s))
       (playFile 3 demo None ''/a/main.scr''
         (new_world [(''/a/main.scr'', [''1000:KeyEvent,true,a'']), (''/a/sub.scr'', [''0:KeyEvent,true,b''])]
           [Recv 400 (Msg \<lparr>kind = LoadFile, data = LoadFileEventPtr ''sub.scr''\<rparr>)] [])) =
     Some (Panics, [''/a/main.scr''], [])"
  by code_simp

section \<open>The depth of nesting\<close>

text \<open>
  At depth 100 or more a call of \<^verbatim>\<open>playFile\<close> on a file that opens returns the
  recursion-limit error and leaves the depth one higher than it found it.
\<close>

lemma limit_reached_raises_depth:
  assumes "fs s (resolve parent filename) = Some lines" and "100 \<le> depth s"
  shows "\<exists>s'. playFile (Suc n) D parent filename s = Some (ReturnsErr TooManyRecursive, s')
    \<and> depth s' = depth s + 1 \<and> file' s' = file' s"
  using assms by (simp add: Let_def setFile_def addDuration_def)

text \<open>
  C3 says that the depth is lowered on every exit path, the recursion limit included. A
  script that includes itself is opened 101 times; the last \<^verbatim>\<open>setFile\<close> raises the depth to
  101 and fails, \<^verbatim>\<open>playFile\<close> returns before it defers \<^verbatim>\<open>resetFile\<close>, and the hundred
  enclosing calls lower the depth to 1: the playback ends with no file open and depth 1.
\<close>

theorem recursion_limit_leaves_depth:
  "map_option (\<lambda>(r, s). (r, depth s, file' s, length (opened s)))
     (playFile 102 demo None ''/a/loop.scr''
        (new_world [(''/a/loop.scr'', [''0:LoadFile,loop.scr''])] [] [])) =
   Some (ReturnsErr TooManyRecursive, 1, None, 101)"
  by code_simp

section \<open>The path of a nested file\<close>

lemma waitForIt_loop_opened: "opened (snd (waitForIt_loop ref timeout i s)) = opened s"
proof (induction ref timeout i s rule: waitForIt_loop.induct)
  case (1 ref timeout i s)
  show ?case
    apply (subst waitForIt_loop.simps)
    using 1
    by (auto simp: Let_def split: list.splits poll.splits)
qed

lemma waitForIt_opened:
  "waitForIt File Timeout s = (r, s') \<Longrightarrow> prefix xs (opened s) \<Longrightarrow> prefix xs (opened s')"
  using waitForIt_loop_opened [of File "Timeout * 1" 0 s] by (simp add: waitForIt_def)

lemma waitLoop_opened:
  assumes "\<forall>p fn s r s'. play p fn s = Some (r, s') \<longrightarrow> prefix xs (opened s) \<longrightarrow> prefix xs (opened s')"
  shows "waitLoop n play f d s = Some (r, s') \<Longrightarrow> prefix xs (opened s) \<Longrightarrow> prefix xs (opened s')"
proof (induction n arbitrary: d s r s')
  case 0
  then show ?case by simp
next
  case (Suc n)
  from assms have play: "\<And>p fn s r s'. play p fn s = Some (r, s') \<Longrightarrow> prefix xs (opened s)
      \<Longrightarrow> prefix xs (opened s')"
    by blast
  from Suc.prems show ?case
    by (auto simp: Let_def addDuration_def recv_signal_def select_wait_def
        split: list.splits decision.splits chan_item.splits Control.splits iface.splits
          option.splits prod.splits outcome.splits if_splits
        dest: waitForIt_opened play Suc.IH)
qed

lemma playLines_opened:
  assumes "\<forall>p fn s r s'. play p fn s = Some (r, s') \<longrightarrow> prefix xs (opened s) \<longrightarrow> prefix xs (opened s')"
  shows "playLines n D play f lines s = Some (r, s') \<Longrightarrow> prefix xs (opened s) \<Longrightarrow> prefix xs (opened s')"
proof (induction lines arbitrary: s r s')
  case Nil
  then show ?case by simp
next
  case (Cons ln rest)
  from assms have play: "\<And>p fn s r s'. play p fn s = Some (r, s') \<Longrightarrow> prefix xs (opened s)
      \<Longrightarrow> prefix xs (opened s')"
    by blast
  note wl = waitLoop_opened [OF assms]
  have wl': "prefix xs (opened t)"
    if "waitLoop n play f d (s\<lparr>e := u\<rparr>) = Some (q, t)" for d u q t
    using wl [OF that] Cons.prems(2) by simp
  have ih': "prefix xs (opened t)"
    if "playLines n D play f rest (x\<lparr>sent := v\<rparr>) = Some (q, t)" and "prefix xs (opened x)"
    for x v q t
    using Cons.IH [OF that(1)] that(2) by simp
  from Cons.prems show ?case
    by (auto simp: Let_def setStep_def
        split: option.splits prod.splits sum.splits if_splits wait_result.splits iface.splits
          outcome.splits
        dest: waitForIt_opened play wl' ih' Cons.IH)
qed

lemma playFile_opened:
  "playFile n D parent filename s = Some (r, s') \<Longrightarrow> prefix xs (opened s) \<Longrightarrow> prefix xs (opened s')"
proof (induction n arbitrary: parent filename s r s')
  case 0
  then show ?case by simp
next
  case (Suc n)
  from Suc.IH have "\<forall>p fn s r s'. playFile n D p fn s = Some (r, s') \<longrightarrow> prefix xs (opened s)
      \<longrightarrow> prefix xs (opened s')"
    by blast
  note pl = playLines_opened [OF this]
  from Suc.prems show ?case
    by (auto simp: Let_def setFile_def resetFile_def addDuration_def
        split: option.splits prod.splits outcome.splits if_splits
        dest: pl)
qed

text \<open>
  C8: the first path that a call of \<^verbatim>\<open>playFile\<close> gives to \<^verbatim>\<open>os.Open\<close> is the resolved
  one, and a path that cannot be opened is reported under that name. For a file name that
  is not absolute under a parent, the resolved path is the name joined to the directory of
  the parent; an absolute name, and any name without a parent, is opened as given.
\<close>

theorem nested_path_resolved:
  "(playFile (Suc n) D parent filename s = Some (r, s') \<longrightarrow>
      prefix (opened s @ [resolve parent filename]) (opened s'))
   \<and> (fs s (resolve parent filename) = None \<longrightarrow>
        playFile (Suc n) D parent filename s =
          Some (ReturnsErr (OpenError (resolve parent filename)),
                s\<lparr>opened := opened s @ [resolve parent filename]\<rparr>))
   \<and> (\<not> IsAbs filename \<longrightarrow> resolve (Some name) filename = Join [Dir name, filename])
   \<and> (IsAbs filename \<longrightarrow> resolve parent filename = filename)
   \<and> resolve None filename = filename"
proof -
  let ?xs = "opened s @ [resolve parent filename]"
  have "\<forall>p fn t r t'. playFile n D p fn t = Some (r, t') \<longrightarrow>
      prefix ?xs (opened t) \<longrightarrow> prefix ?xs (opened t')"
    using playFile_opened by blast
  note pl = playLines_opened [OF this]
  have a: "playFile (Suc n) D parent filename s = Some (r, s') \<longrightarrow>
      prefix (opened s @ [resolve parent filename]) (opened s')"
    by (auto simp: Let_def setFile_def resetFile_def addDuration_def
        split: option.splits prod.splits outcome.splits if_splits
        dest: pl)
  have b: "fs s (resolve parent filename) = None \<longrightarrow>
        playFile (Suc n) D parent filename s =
          Some (ReturnsErr (OpenError (resolve parent filename)),
                s\<lparr>opened := opened s @ [resolve parent filename]\<rparr>)"
    by (simp add: Let_def)
  have c: "(\<not> IsAbs filename \<longrightarrow> resolve (Some name) filename = Join [Dir name, filename])
   \<and> (IsAbs filename \<longrightarrow> resolve parent filename = filename)
   \<and> resolve None filename = filename"
    by (simp add: resolve_def split: option.splits)
  from a b c show ?thesis by blast
qed

theorem nested_path_resolved_witness:
  "prefix [''/a/b/sub.scr'']
     (opened (snd (the (playFile (Suc 1) demo (Some ''/a/b/main.scr'') ''sub.scr''
        (new_world [(''/a/b/sub.scr'', [''0:KeyEvent,true,b''])] [] [])))))
   \<and> resolve (Some ''/a/b/main.scr'') ''sub.scr'' = ''/a/b/sub.scr''
   \<and> resolve (Some ''/a/b/main.scr'') ''/etc/other.scr'' = ''/etc/other.scr''
   \<and> map_option fst (playFile (Suc 0) demo (Some ''/a/b/main.scr'') ''gone.scr''
        (new_world [] [] [])) = Some (ReturnsErr (OpenError ''/a/b/gone.scr''))"
proof -
  define W where "W = new_world [(''/a/b/sub.scr'', [''0:KeyEvent,true,b''])] [] []"
  define X where "X = playFile (Suc 1) demo (Some ''/a/b/main.scr'') ''sub.scr'' W"
  have "X \<noteq> None" unfolding X_def W_def by code_simp
  then obtain r s' where ev: "X = Some (r, s')" by (cases X) auto
  have res: "resolve (Some ''/a/b/main.scr'') ''sub.scr'' = ''/a/b/sub.scr''" by code_simp
  have ab: "IsAbs ''/etc/other.scr''" by code_simp
  have op: "opened W = []" by (simp add: W_def new_world_def)
  note t = nested_path_resolved [of 1 demo "Some ''/a/b/main.scr''" "''sub.scr''" W r s']
  from t ev have "prefix (opened W @ [resolve (Some ''/a/b/main.scr'') ''sub.scr'']) (opened s')"
    unfolding X_def by blast
  then have a: "prefix [''/a/b/sub.scr''] (opened (snd (the X)))"
    by (simp only: res op ev append_Nil option.sel snd_conv)
  from nested_path_resolved [of 0 demo "Some ''/a/b/main.scr''" "''/etc/other.scr''"] ab
  have b: "resolve (Some ''/a/b/main.scr'') ''/etc/other.scr'' = ''/etc/other.scr''"
    by blast
  have res2: "resolve (Some ''/a/b/main.scr'') ''gone.scr'' = ''/a/b/gone.scr''" by code_simp
  have "fs (new_world [] [] []) (resolve (Some ''/a/b/main.scr'') ''gone.scr'') = None"
    by (simp add: new_world_def)
  with nested_path_resolved [of 0 demo "Some ''/a/b/main.scr''" "''gone.scr''" "new_world [] [] []"]
  have "playFile (Suc 0) demo (Some ''/a/b/main.scr'') ''gone.scr'' (new_world [] [] []) =
      Some (ReturnsErr (OpenError (resolve (Some ''/a/b/main.scr'') ''gone.scr'')),
        (new_world [] [] [])\<lparr>opened := opened (new_world [] [] []) @
          [resolve (Some ''/a/b/main.scr'') ''gone.scr'']\<rparr>)"
    by blast
  then have c: "map_option fst (playFile (Suc 0) demo (Some ''/a/b/main.scr'') ''gone.scr''
        (new_world [] [] [])) = Some (ReturnsErr (OpenError ''/a/b/gone.scr''))"
    by (simp only: res2 option.map fst_conv)
  from a res b c show ?thesis unfolding X_def W_def by blast
qed

section \<open>The search matcher: Name runs on into Host\<close>

lemma match_append:
  "list_all (\<lambda>f. match_field I term v f \<noteq> Some False) pre \<Longrightarrow> match I term v rest
    \<Longrightarrow> match I term v (pre @ rest)"
  by (induction pre) (auto split: option.splits)

text \<open>
  C10: for a vm whose name does not contain the term, the round for the field \<open>Name\<close> does
  what the round for \<open>Host\<close> does; so when the host contains the term, and no earlier
  field of the list has returned false, \<^verbatim>\<open>match\<close> on a list with \<open>Name\<close> followed by
  \<open>Host\<close> returns true.
\<close>

theorem Name_falls_through_to_Host:
  assumes "\<not> includes_str (toLowerCase (vm_name v)) term"
    and "includes_str (toLowerCase (vm_host v)) term"
    and "list_all (\<lambda>f. match_field I term v f \<noteq> Some False) pre"
  shows "match_field I term v ''Name'' = case_Host term v
    \<and> match I term v (pre @ ''Name'' # ''Host'' # rest)"
proof -
  have a: "match_field I term v ''Name'' = case_Host term v"
    using assms(1) by (simp add: match_field_def)
  have "match I term v (''Name'' # ''Host'' # rest)"
    using assms(2) by (simp add: a case_Host_def)
  with assms(3) a show ?thesis by (simp add: match_append)
qed

theorem Name_falls_through_to_Host_witness:
  "match \<lparr>setAddress = (\<lambda>t. None :: unit option), contains = (\<lambda>a n. False)\<rparr> ''node''
     \<lparr>vm_name = ''Web01'', vm_host = ''Node7'', vm_tags = ''{}'', vm_disk = ''a.qc2'',
      vm_vlan = ''[exp-1 (101)]'', vm_ip = ''[10.0.0.1]'', vm_state = ''RUNNING'', vm_busy = False,
      vm_captures = [], vm_DoNotBoot = False\<rparr>
     ([''Vlans''] @ ''Name'' # ''Host'' # [''Tags''])"
proof -
  let ?I = "\<lparr>setAddress = (\<lambda>t. None :: unit option), contains = (\<lambda>a n. False)\<rparr>"
  let ?v = "\<lparr>vm_name = ''Web01'', vm_host = ''Node7'', vm_tags = ''{}'', vm_disk = ''a.qc2'',
      vm_vlan = ''[exp-1 (101)]'', vm_ip = ''[10.0.0.1]'', vm_state = ''RUNNING'', vm_busy = False,
      vm_captures = [], vm_DoNotBoot = False\<rparr>"
  have 1: "\<not> includes_str (toLowerCase (vm_name ?v)) ''node''" by code_simp
  have 2: "includes_str (toLowerCase (vm_host ?v)) ''node''" by code_simp
  have 3: "list_all (\<lambda>f. match_field ?I ''node'' ?v f \<noteq> Some False) [''Vlans'']" by code_simp
  from Name_falls_through_to_Host [OF 1 2 3] show ?thesis by blast
qed

text \<open>The effect shows when \<open>Host\<close> is not searched at all.\<close>

lemma Name_alone_matches_host:
  assumes "\<not> includes_str (toLowerCase (vm_name v)) term"
    and "includes_str (toLowerCase (vm_host v)) term"
  shows "match I term v [''Name'']"
  using assms by (simp add: match_field_def case_Host_def)

end
